theory Spec2Isabelle
  imports Complex_Main
begin

section \<open>The Bayesian normal estimator of homework2/problem1\_bayesian\_estimation.py\<close>

text \<open>
  The numbers of the program are IEEE doubles, as Python floats and as numpy float64
  scalars and arrays. Their type is the type variable \<open>'f\<close>, and the arithmetic of the
  machine and of the libraries is a record of operations on \<open>'f\<close>, passed to every
  function of the model. Nothing is assumed about the operations, so what is proved holds
  with the rounding, overflow, underflow, signed zeros, infinities and NaNs of the real
  ones. What the model fixes is the code itself: which operation is applied to which
  value in which order, and which operations can raise.
\<close>

subsection \<open>Doubles and their operations\<close>

datatype error = ZeroDivisionError | OverflowError | ValueError | MemoryError

datatype 'a outcome = Returns 'a | Raises error

text \<open>
  \<^item> \<open>fadd\<close>, \<open>fsub\<close>, \<open>fmul\<close>, \<open>fdiv\<close>: the IEEE operations \<^verbatim>\<open>+ - * /\<close>; numpy
    applies \<open>fdiv\<close> to a zero divisor too (inf or nan, with a warning).
  \<^item> \<open>fsqrt\<close>: \<^verbatim>\<open>np.sqrt\<close>.
  \<^item> \<open>from_int\<close>: the double of a Python int in mixed arithmetic; \<open>truediv\<close>: the
    Python quotient \<^verbatim>\<open>a / b\<close> of two ints.
  \<^item> \<open>is_nan\<close>, \<open>is_zero\<close> (\<^verbatim>\<open>x == 0.0\<close>, true of both zeros), \<open>gt_zero\<close>
    (\<^verbatim>\<open>x > 0\<close>), \<open>sign_bit\<close> (\<^verbatim>\<open>np.signbit\<close>).
  \<^item> \<open>pow2\<close>: the value of the Python float power \<^verbatim>\<open>x ** 2\<close> when it returns;
    \<open>pow2_overflow\<close>: the power of this finite \<open>x\<close> exceeds the range of doubles.
  \<^item> \<open>np_square\<close>: one cell of the array power \<^verbatim>\<open>a ** 2\<close>; \<open>np_pow2\<close>: the power
    \<^verbatim>\<open>x ** 2\<close> of a numpy scalar.
  \<^item> \<open>np_mean\<close>, \<open>np_var_ddof1\<close>, \<open>np_sum\<close>: \<^verbatim>\<open>np.mean(a)\<close>,
    \<^verbatim>\<open>np.var(a, ddof=1)\<close>, \<^verbatim>\<open>np.sum(a)\<close>; none of them raises, the mean of an
    empty array is nan.
  \<^item> \<open>alloc_error\<close>: the exception with which numpy fails to create an array of a
    size that is not negative (\<^verbatim>\<open>MemoryError\<close>, or another one for a size beyond the
    index type of the platform), \<open>None\<close> when it creates the array.
\<close>

record 'f arith =
  fadd :: "'f \<Rightarrow> 'f \<Rightarrow> 'f"
  fsub :: "'f \<Rightarrow> 'f \<Rightarrow> 'f"
  fmul :: "'f \<Rightarrow> 'f \<Rightarrow> 'f"
  fdiv :: "'f \<Rightarrow> 'f \<Rightarrow> 'f"
  fsqrt :: "'f \<Rightarrow> 'f"
  from_int :: "int \<Rightarrow> 'f"
  truediv :: "int \<Rightarrow> int \<Rightarrow> 'f"
  is_nan :: "'f \<Rightarrow> bool"
  is_zero :: "'f \<Rightarrow> bool"
  gt_zero :: "'f \<Rightarrow> bool"
  sign_bit :: "'f \<Rightarrow> bool"
  pow2 :: "'f \<Rightarrow> 'f"
  pow2_overflow :: "'f \<Rightarrow> bool"
  np_square :: "'f \<Rightarrow> 'f"
  np_pow2 :: "'f \<Rightarrow> 'f"
  np_mean :: "'f list \<Rightarrow> 'f"
  np_var_ddof1 :: "'f list \<Rightarrow> 'f"
  np_sum :: "'f list \<Rightarrow> 'f"
  alloc_error :: "int \<Rightarrow> error option"

text \<open>
  The Python float power \<^verbatim>\<open>x ** 2\<close>: a nan is returned as it is, a finite \<open>x\<close> whose
  square is out of range raises \<^verbatim>\<open>OverflowError\<close>; an underflow to zero is silent.
\<close>

definition py_pow2 :: "'f arith \<Rightarrow> 'f \<Rightarrow> 'f outcome" where
  "py_pow2 A x =
     (if is_nan A x then Returns x
      else if pow2_overflow A x then Raises OverflowError
      else Returns (pow2 A x))"

text \<open>
  The Python float division \<^verbatim>\<open>a / b\<close>: it raises when \<^verbatim>\<open>b == 0.0\<close>, which a nan
  is not.
\<close>

definition py_div :: "'f arith \<Rightarrow> 'f \<Rightarrow> 'f \<Rightarrow> 'f outcome" where
  "py_div A a b =
     (if \<not> is_nan A b \<and> is_zero A b then Raises ZeroDivisionError
      else Returns (fdiv A a b))"

subsection \<open>Data model\<close>

text \<open>
  The attributes of \<^verbatim>\<open>BayesianNormalEstimator\<close>. The hyperparameters handed to the
  constructor are Python floats (the signature says so), and so is
  \<^verbatim>\<open>posterior_alpha\<close>, always the Python sum \<^verbatim>\<open>prior_alpha + n / 2\<close>.
  \<^verbatim>\<open>posterior_beta\<close> holds the Python float \<^verbatim>\<open>prior_beta\<close> after construction and
  after an update with \<^verbatim>\<open>n <= 1\<close>, and a numpy float64 after an update with
  \<^verbatim>\<open>n > 1\<close> (the term \<^verbatim>\<open>ss / 2\<close> is one); the field \<open>posterior_beta_np\<close> records
  which, because the two divide by zero differently.
\<close>

record 'f estimator =
  prior_mu :: 'f
  prior_sigma :: 'f
  prior_alpha :: 'f
  prior_beta :: 'f
  posterior_mu :: 'f
  posterior_sigma :: 'f
  posterior_alpha :: 'f
  posterior_beta :: 'f
  posterior_beta_np :: bool
  data :: "'f list"

text \<open>\<^verbatim>\<open>__init__\<close>: the posterior starts as a copy of the prior, with no data.\<close>

definition init :: "'f \<Rightarrow> 'f \<Rightarrow> 'f \<Rightarrow> 'f \<Rightarrow> 'f estimator" where
  "init mu sigma alpha beta =
     \<lparr> prior_mu = mu, prior_sigma = sigma, prior_alpha = alpha, prior_beta = beta,
       posterior_mu = mu, posterior_sigma = sigma, posterior_alpha = alpha,
       posterior_beta = beta, posterior_beta_np = False, data = [] \<rparr>"

subsection \<open>update\_posterior\<close>

text \<open>
  \<^verbatim>\<open>update_posterior\<close>, statement by statement. The data is stored first. Line 56,
  \<^verbatim>\<open>1 / (self.prior_sigma ** 2)\<close>, is Python float arithmetic and the only place that
  can raise; it does so before any posterior attribute is assigned. \<^verbatim>\<open>sample_var\<close>
  is \<^verbatim>\<open>np.var(data, ddof=1)\<close> for \<^verbatim>\<open>n > 1\<close> and the Python int 0 otherwise, for
  which \<^verbatim>\<open>sample_var > 0\<close> is false: \<open>var_pos\<close> is that test, and the variance is
  read only where \<^verbatim>\<open>n > 1\<close>. All later arithmetic
  has a numpy operand or is a Python sum or product, and does not raise. The result is
  the outcome of the call and the object after it.
\<close>

definition update_posterior ::
  "'f arith \<Rightarrow> 'f estimator \<Rightarrow> 'f list \<Rightarrow> unit outcome \<times> 'f estimator" where
  "update_posterior A e xs =
     (let e1 = e\<lparr>data := xs\<rparr>;
          n = length xs;
          sample_mean = np_mean A xs;
          sample_var = np_var_ddof1 A xs;
          var_pos = (n > 1 \<and> gt_zero A sample_var)
      in case py_pow2 A (prior_sigma e) of
           Raises err \<Rightarrow> (Raises err, e1)
         | Returns sq \<Rightarrow>
             (case py_div A (from_int A 1) sq of
                Raises err \<Rightarrow> (Raises err, e1)
              | Returns prior_precision \<Rightarrow>
                  (let posterior_precision =
                         (if var_pos
                          then fadd A prior_precision (fdiv A (from_int A (int n)) sample_var)
                          else prior_precision);
                       e2 = e1\<lparr>posterior_sigma :=
                                 fdiv A (from_int A 1) (fsqrt A posterior_precision)\<rparr>;
                       e3 = e2\<lparr>posterior_mu :=
                                 (if var_pos
                                  then fdiv A
                                         (fadd A (fmul A prior_precision (prior_mu e))
                                            (fdiv A (fmul A (from_int A (int n)) sample_mean)
                                               sample_var))
                                         posterior_precision
                                  else prior_mu e)\<rparr>;
                       e4 = e3\<lparr>posterior_alpha :=
                                 fadd A (prior_alpha e) (truediv A (int n) 2)\<rparr>
                   in if n > 1
                      then (let ss = np_sum A (map (\<lambda>x. np_square A (fsub A x sample_mean)) xs)
                            in (Returns (),
                                e4\<lparr>posterior_beta :=
                                     fadd A
                                       (fadd A (prior_beta e) (fdiv A ss (from_int A 2)))
                                       (fdiv A
                                          (fmul A (fmul A prior_precision (from_int A (int n)))
                                             (np_pow2 A (fsub A sample_mean (prior_mu e))))
                                          (fmul A (from_int A 2) posterior_precision)),
                                   posterior_beta_np := True\<rparr>))
                      else (Returns (),
                            e4\<lparr>posterior_beta := prior_beta e,
                               posterior_beta_np := False\<rparr>))))"

text \<open>The object after a sequence of calls of \<^verbatim>\<open>update_posterior\<close>, oldest first.\<close>

fun run_updates :: "'f arith \<Rightarrow> 'f estimator \<Rightarrow> 'f list list \<Rightarrow> 'f estimator" where
  "run_updates A e [] = e"
| "run_updates A e (xs # rest) = run_updates A (snd (update_posterior A e xs)) rest"

subsection \<open>sample\_posterior\<close>

text \<open>
  The random generator of numpy is a parameter: a state \<open>'g\<close> and, for each
  distribution, a function drawing one value and advancing the state. \<open>draws\<close> fills an
  array of the requested size, one draw per cell.
\<close>

fun draws :: "('g \<Rightarrow> 'a \<times> 'g) \<Rightarrow> nat \<Rightarrow> 'g \<Rightarrow> 'a list \<times> 'g" where
  "draws f 0 g = ([], g)"
| "draws f (Suc k) g =
     (case f g of (x, g1) \<Rightarrow> (case draws f k g1 of (xs, g2) \<Rightarrow> (x # xs, g2)))"

text \<open>
  \<^verbatim>\<open>np.random.gamma(shape, scale, size)\<close>: numpy first rejects with \<^verbatim>\<open>ValueError\<close>
  a shape or a scale that is not nan and has its sign bit set (so \<^verbatim>\<open>-0.0\<close> too), then
  creates the array, which fails with \<^verbatim>\<open>ValueError\<close> for a negative size and with
  \<open>alloc_error\<close> for one that is too large, and fills it with \<^verbatim>\<open>size\<close> draws.
\<close>

definition np_random_gamma ::
  "'f arith \<Rightarrow> ('f \<Rightarrow> 'f \<Rightarrow> 'g \<Rightarrow> 'f \<times> 'g) \<Rightarrow> 'f \<Rightarrow> 'f \<Rightarrow> int \<Rightarrow> 'g
     \<Rightarrow> 'f list outcome \<times> 'g" where
  "np_random_gamma A gamma_draw shape scale sz g =
     (if (\<not> is_nan A shape \<and> sign_bit A shape) \<or> (\<not> is_nan A scale \<and> sign_bit A scale)
         \<or> sz < 0
      then (Raises ValueError, g)
      else case alloc_error A sz of
             Some err \<Rightarrow> (Raises err, g)
           | None \<Rightarrow>
               (case draws (gamma_draw shape scale) (nat sz) g of
                  (xs, g1) \<Rightarrow> (Returns xs, g1)))"

text \<open>
  \<^verbatim>\<open>np.random.normal(loc, scale, size)\<close>: the same test on the scale and the size.
\<close>

definition np_random_normal ::
  "'f arith \<Rightarrow> ('f \<Rightarrow> 'f \<Rightarrow> 'g \<Rightarrow> 'f \<times> 'g) \<Rightarrow> 'f \<Rightarrow> 'f \<Rightarrow> int \<Rightarrow> 'g
     \<Rightarrow> 'f list outcome \<times> 'g" where
  "np_random_normal A normal_draw loc scale sz g =
     (if (\<not> is_nan A scale \<and> sign_bit A scale) \<or> sz < 0 then (Raises ValueError, g)
      else case alloc_error A sz of
             Some err \<Rightarrow> (Raises err, g)
           | None \<Rightarrow>
               (case draws (normal_draw loc scale) (nat sz) g of
                  (xs, g1) \<Rightarrow> (Returns xs, g1)))"

text \<open>
  \<^verbatim>\<open>sample_posterior\<close>. \<^verbatim>\<open>1/self.posterior_beta\<close> is a Python division when the
  attribute is a Python float and a numpy division otherwise;
  \<^verbatim>\<open>1 / np.sqrt(precision_samples)\<close> works cell by cell and does not raise.
\<close>

definition sample_posterior ::
  "'f arith \<Rightarrow> ('f \<Rightarrow> 'f \<Rightarrow> 'g \<Rightarrow> 'f \<times> 'g) \<Rightarrow> ('f \<Rightarrow> 'f \<Rightarrow> 'g \<Rightarrow> 'f \<times> 'g)
     \<Rightarrow> 'f estimator \<Rightarrow> int \<Rightarrow> 'g
     \<Rightarrow> ('f list \<times> 'f list) outcome \<times> 'f estimator \<times> 'g" where
  "sample_posterior A gamma_draw normal_draw e n_samples g =
     (case (if posterior_beta_np e then Returns (fdiv A (from_int A 1) (posterior_beta e))
            else py_div A (from_int A 1) (posterior_beta e)) of
        Raises err \<Rightarrow> (Raises err, e, g)
      | Returns scale \<Rightarrow>
          (case np_random_gamma A gamma_draw (posterior_alpha e) scale n_samples g of
             (Raises err, g1) \<Rightarrow> (Raises err, e, g1)
           | (Returns precision_samples, g1) \<Rightarrow>
               (let sigma_samples =
                      map (\<lambda>p. fdiv A (from_int A 1) (fsqrt A p)) precision_samples
                in (case np_random_normal A normal_draw (posterior_mu e) (posterior_sigma e)
                           n_samples g1 of
                      (Raises err, g2) \<Rightarrow> (Raises err, e, g2)
                    | (Returns mu_samples, g2) \<Rightarrow>
                        (Returns (mu_samples, sigma_samples), e, g2)))))"

subsection \<open>posterior\_predictive\<close>

text \<open>
  \<^verbatim>\<open>posterior_predictive\<close>. \<open>t_pdf x df loc scale\<close> is scipy's
  \<^verbatim>\<open>stats.t.pdf(x, df, loc=loc, scale=scale)\<close> at one point, a parameter; it returns
  nan for arguments outside its domain and does not raise. The quotient
  \<^verbatim>\<open>self.posterior_beta * (1 + 1) / self.posterior_alpha\<close> has the Python float
  \<^verbatim>\<open>posterior_alpha\<close> as divisor: with a Python numerator it is a Python division,
  with a numpy numerator a numpy one.
\<close>

definition posterior_predictive ::
  "'f arith \<Rightarrow> ('f \<Rightarrow> 'f \<Rightarrow> 'f \<Rightarrow> 'f \<Rightarrow> 'f) \<Rightarrow> 'f estimator \<Rightarrow> 'f list
     \<Rightarrow> 'f list outcome \<times> 'f estimator" where
  "posterior_predictive A t_pdf e x_new =
     (let nu = fmul A (from_int A 2) (posterior_alpha e);
          numerator = fmul A (posterior_beta e) (from_int A 2)
      in case (if posterior_beta_np e then Returns (fdiv A numerator (posterior_alpha e))
               else py_div A numerator (posterior_alpha e)) of
           Raises err \<Rightarrow> (Raises err, e)
         | Returns ratio \<Rightarrow>
             (let scale = fsqrt A ratio
              in (Returns (map (\<lambda>x. t_pdf x nu (posterior_mu e) scale) x_new), e)))"

subsection \<open>An arithmetic to run the model\<close>

text \<open>
  The arithmetic without rounding, on the reals. On doubles whose exact results are
  doubles again (small integers and their binary fractions) it computes what the machine
  computes; the runs below stay within such values and never reach a division by zero
  with it. It has no nan and no negative zero, and every array can be created.
\<close>

definition exact :: "real arith" where
  "exact =
     \<lparr> fadd = (\<lambda>x y. x + y), fsub = (\<lambda>x y. x - y), fmul = (\<lambda>x y. x * y),
       fdiv = (\<lambda>x y. x / y), fsqrt = sqrt, from_int = real_of_int,
       truediv = (\<lambda>a b. real_of_int a / real_of_int b),
       is_nan = (\<lambda>x. False), is_zero = (\<lambda>x. x = 0), gt_zero = (\<lambda>x. 0 < x),
       sign_bit = (\<lambda>x. x < 0),
       pow2 = (\<lambda>x. x * x), pow2_overflow = (\<lambda>x. False),
       np_square = (\<lambda>x. x * x), np_pow2 = (\<lambda>x. x * x),
       np_mean = (\<lambda>xs. sum_list xs / real (length xs)),
       np_var_ddof1 =
         (\<lambda>xs. sum_list (map (\<lambda>x. (x - sum_list xs / real (length xs))
                                  * (x - sum_list xs / real (length xs))) xs)
               / (real (length xs) - 1)),
       np_sum = sum_list, alloc_error = (\<lambda>n. None) \<rparr>"

text \<open>
  A deterministic stand-in for the random generator, whose state counts the draws: every
  gamma draw is 4, every normal draw is the location.
\<close>

definition fixed_gamma_draw :: "real \<Rightarrow> real \<Rightarrow> nat \<Rightarrow> real \<times> nat" where
  "fixed_gamma_draw shape scale g = (4, Suc g)"

definition fixed_normal_draw :: "real \<Rightarrow> real \<Rightarrow> nat \<Rightarrow> real \<times> nat" where
  "fixed_normal_draw loc scale g = (loc, Suc g)"

text \<open>A stand-in for the density, for runs that never evaluate it.\<close>

definition no_pdf :: "real \<Rightarrow> real \<Rightarrow> real \<Rightarrow> real \<Rightarrow> real" where
  "no_pdf x df loc scale = 0"

section \<open>Facts about the model\<close>

lemma update_posterior_outcome:
  "fst (update_posterior A e xs)
     = (if is_nan A (prior_sigma e) then Returns ()
        else if pow2_overflow A (prior_sigma e) then Raises OverflowError
        else if \<not> is_nan A (pow2 A (prior_sigma e)) \<and> is_zero A (pow2 A (prior_sigma e))
        then Raises ZeroDivisionError
        else Returns ())"
  by (simp add: update_posterior_def py_pow2_def py_div_def Let_def)

lemma update_posterior_raised_state:
  "fst (update_posterior A e xs) = Raises err \<Longrightarrow>
   snd (update_posterior A e xs) = e\<lparr>data := xs\<rparr>"
  by (auto simp: update_posterior_def py_pow2_def py_div_def Let_def split: if_splits)

lemma update_posterior_priors:
  "prior_mu (snd (update_posterior A e xs)) = prior_mu e \<and>
   prior_sigma (snd (update_posterior A e xs)) = prior_sigma e \<and>
   prior_alpha (snd (update_posterior A e xs)) = prior_alpha e \<and>
   prior_beta (snd (update_posterior A e xs)) = prior_beta e"
  by (simp add: update_posterior_def py_pow2_def py_div_def Let_def)

lemma update_posterior_twice:
  "update_posterior A (snd (update_posterior A e ys)) xs = update_posterior A e xs"
  by (simp add: update_posterior_def py_pow2_def py_div_def Let_def)

lemma update_after_history:
  "update_posterior A (run_updates A e ds) xs = update_posterior A e xs"
  by (induction ds arbitrary: e) (simp_all add: update_posterior_twice)

lemma draws_length: "draws f k g = (xs, g') \<Longrightarrow> length xs = k"
  by (induction k arbitrary: g xs g') (auto split: prod.splits)

lemma posterior_predictive_outcome:
  "fst (posterior_predictive A t_pdf e x_new)
     = (if \<not> posterior_beta_np e \<and> \<not> is_nan A (posterior_alpha e)
           \<and> is_zero A (posterior_alpha e)
        then Raises ZeroDivisionError
        else Returns (map (\<lambda>x. t_pdf x (fmul A (from_int A 2) (posterior_alpha e))
                                   (posterior_mu e)
                                   (fsqrt A (fdiv A (fmul A (posterior_beta e) (from_int A 2))
                                               (posterior_alpha e))))
                        x_new))"
  by (simp add: posterior_predictive_def py_div_def Let_def)

lemma posterior_predictive_state:
  "snd (posterior_predictive A t_pdf e x_new) = e"
  by (simp add: posterior_predictive_def py_div_def Let_def split: outcome.splits)

lemma sample_posterior_state:
  "fst (snd (sample_posterior A gd nd e n g)) = e"
  by (simp add: sample_posterior_def py_div_def Let_def split: prod.splits outcome.splits)

lemma np_random_gamma_raises:
  "fst (np_random_gamma A gd shape scale n g) = Raises err
     \<longleftrightarrow> (if (\<not> is_nan A shape \<and> sign_bit A shape) \<or> (\<not> is_nan A scale \<and> sign_bit A scale)
             \<or> n < 0
          then err = ValueError
          else alloc_error A n = Some err)"
  by (auto simp: np_random_gamma_def split: prod.splits option.splits)

lemma np_random_normal_raises:
  "fst (np_random_normal A nd loc scale n g) = Raises err
     \<longleftrightarrow> (if (\<not> is_nan A scale \<and> sign_bit A scale) \<or> n < 0 then err = ValueError
          else alloc_error A n = Some err)"
  by (auto simp: np_random_normal_def split: prod.splits option.splits)

lemma np_random_gamma_returns:
  "np_random_gamma A gd shape scale n g = (Returns xs, g1) \<Longrightarrow> length xs = nat n"
  by (auto simp: np_random_gamma_def draws_length split: prod.splits if_splits option.splits)

lemma np_random_normal_returns:
  "np_random_normal A nd loc scale n g = (Returns xs, g1) \<Longrightarrow> length xs = nat n"
  by (auto simp: np_random_normal_def draws_length split: prod.splits if_splits option.splits)

lemma sample_posterior_after_division:
  assumes "posterior_beta_np e \<or> is_nan A (posterior_beta e) \<or> \<not> is_zero A (posterior_beta e)"
  shows "fst (sample_posterior A gd nd e n g) = Raises err
     \<longleftrightarrow> (if (\<not> is_nan A (posterior_alpha e) \<and> sign_bit A (posterior_alpha e))
             \<or> (\<not> is_nan A (fdiv A (from_int A 1) (posterior_beta e))
                 \<and> sign_bit A (fdiv A (from_int A 1) (posterior_beta e)))
             \<or> n < 0
          then err = ValueError
          else if alloc_error A n \<noteq> None then alloc_error A n = Some err
          else err = ValueError
               \<and> \<not> is_nan A (posterior_sigma e) \<and> sign_bit A (posterior_sigma e))"
  using assms
  by (auto simp: sample_posterior_def py_div_def np_random_gamma_def np_random_normal_def
      Let_def split: prod.splits option.splits)

lemma sample_posterior_zero_division:
  "\<not> posterior_beta_np e \<Longrightarrow> \<not> is_nan A (posterior_beta e) \<Longrightarrow> is_zero A (posterior_beta e)
   \<Longrightarrow> fst (sample_posterior A gd nd e n g) = Raises ZeroDivisionError"
  by (simp add: sample_posterior_def py_div_def)

section \<open>The claims\<close>

subsection \<open>C1: the posterior of a sample with positive variance\<close>

text \<open>
  Claim C1 gives the posterior of every sample of length \<open>n > 1\<close> with positive variance.
  With the prior scale \<^verbatim>\<open>0.0\<close> and the sample \<open>[1, 3]\<close>, of variance 2, line 56 raises
  \<^verbatim>\<open>ZeroDivisionError\<close> and the posterior fields keep the values of the constructor.
\<close>

theorem update_posterior_formulas_counterexample:
  "fst (update_posterior exact (init 0 0 1 1) [1, 3]) = Raises ZeroDivisionError
   \<and> posterior_sigma (snd (update_posterior exact (init 0 0 1 1) [1, 3])) = 0
   \<and> posterior_mu (snd (update_posterior exact (init 0 0 1 1) [1, 3])) = 0
   \<and> posterior_beta (snd (update_posterior exact (init 0 0 1 1) [1, 3])) = 1"
  by (simp add: update_posterior_def py_pow2_def py_div_def exact_def init_def Let_def)

text \<open>
  Claim C1, amended. Let the sample have length \<open>n > 1\<close>, let the variance that the code
  computes, \<^verbatim>\<open>np.var(data, ddof=1)\<close>, pass the test \<^verbatim>\<open>> 0\<close>, and let line 56 not
  raise: the prior scale is a nan, or its square neither overflows nor is \<^verbatim>\<open>0.0\<close>. Then
  \<^verbatim>\<open>update_posterior\<close> returns, and in the arithmetic of doubles the posterior scale is
  \<open>1 / sqrt posterior_precision\<close>, the posterior mean is
  \<open>(prior_precision * prior_mean + n * sample_mean / sample_variance) / posterior_precision\<close>
  and the posterior rate is \<open>prior_rate + ss / 2 + (prior_precision * n *
  (sample_mean - prior_mean)\<^sup>2) / (2 * posterior_precision)\<close>, with
  \<open>prior_precision = 1 / prior_scale\<^sup>2\<close>,
  \<open>posterior_precision = prior_precision + n / sample_variance\<close> and \<open>ss\<close> the sum of the
  squared deviations from the sample mean.
\<close>

theorem update_posterior_formulas:
  "let n = length xs;
       s = prior_sigma e;
       sq = (if is_nan A s then s else pow2 A s);
       prior_precision = fdiv A (from_int A 1) sq;
       sample_mean = np_mean A xs;
       sample_variance = np_var_ddof1 A xs;
       ss = np_sum A (map (\<lambda>x. np_square A (fsub A x sample_mean)) xs);
       posterior_precision =
         fadd A prior_precision (fdiv A (from_int A (int n)) sample_variance);
       e' = snd (update_posterior A e xs)
   in 1 < n \<and> gt_zero A sample_variance
      \<and> (is_nan A s \<or> \<not> pow2_overflow A s) \<and> (is_nan A sq \<or> \<not> is_zero A sq)
      \<longrightarrow> fst (update_posterior A e xs) = Returns ()
        \<and> posterior_sigma e' = fdiv A (from_int A 1) (fsqrt A posterior_precision)
        \<and> posterior_mu e'
            = fdiv A (fadd A (fmul A prior_precision (prior_mu e))
                        (fdiv A (fmul A (from_int A (int n)) sample_mean) sample_variance))
                posterior_precision
        \<and> posterior_beta e'
            = fadd A (fadd A (prior_beta e) (fdiv A ss (from_int A 2)))
                (fdiv A (fmul A (fmul A prior_precision (from_int A (int n)))
                           (np_pow2 A (fsub A sample_mean (prior_mu e))))
                   (fmul A (from_int A 2) posterior_precision))"
  by (auto simp: update_posterior_def py_pow2_def py_div_def Let_def)

text \<open>
  The amended claim at the prior \<open>(0, 1, 1, 1)\<close> and the sample \<open>[0, 1, 2]\<close>: mean 1,
  variance 1, posterior precision 4, hence scale 1/2, mean 3/4 and rate 19/8.
\<close>

theorem update_posterior_formulas_witness:
  "1 < length [0, 1, 2 :: real]
   \<and> gt_zero exact (np_var_ddof1 exact [0, 1, 2])
   \<and> \<not> pow2_overflow exact 1 \<and> \<not> is_zero exact (pow2 exact 1)
   \<and> fst (update_posterior exact (init 0 1 1 1) [0, 1, 2]) = Returns ()
   \<and> posterior_sigma (snd (update_posterior exact (init 0 1 1 1) [0, 1, 2])) = 1 / 2
   \<and> posterior_mu (snd (update_posterior exact (init 0 1 1 1) [0, 1, 2])) = 3 / 4
   \<and> posterior_beta (snd (update_posterior exact (init 0 1 1 1) [0, 1, 2])) = 19 / 8"
  using update_posterior_formulas [of "[0, 1, 2]" "init 0 1 1 1" exact]
  by (simp add: exact_def init_def Let_def)

subsection \<open>C2: a one-element sample\<close>




subsection \<open>C3: the empty sample\<close>




subsection \<open>C4: the shape advances with the sample size\<close>

text \<open>
  Claim C4 says that for every prior and every sample the posterior shape is the prior
  shape plus \<open>n / 2\<close>. At the prior scale \<^verbatim>\<open>0.0\<close> the call raises before the shape is
  assigned, so a fresh estimator keeps the prior shape 1 after a two-element sample.
\<close>

theorem shape_counterexample:
  "fst (update_posterior exact (init 0 0 1 1) [1, 2]) = Raises ZeroDivisionError
   \<and> posterior_alpha (snd (update_posterior exact (init 0 0 1 1) [1, 2])) = 1"
  by (simp add: update_posterior_def py_pow2_def py_div_def exact_def init_def Let_def)

text \<open>
  Claim C4, amended. For every sample and every prior for which line 56 does not raise
  (the prior scale is a nan, or its square neither overflows nor is \<^verbatim>\<open>0.0\<close>), the
  posterior shape after \<^verbatim>\<open>update_posterior\<close> is the double \<open>prior_shape + n / 2\<close>.
\<close>

theorem shape_advances:
  "let s = prior_sigma e;
       sq = (if is_nan A s then s else pow2 A s)
   in (is_nan A s \<or> \<not> pow2_overflow A s) \<and> (is_nan A sq \<or> \<not> is_zero A sq)
      \<longrightarrow> posterior_alpha (snd (update_posterior A e xs))
            = fadd A (prior_alpha e) (truediv A (int (length xs)) 2)"
  by (auto simp: update_posterior_def py_pow2_def py_div_def Let_def)

text \<open>
  The amended claim at the prior \<open>(0, 2, 1, 1)\<close> and the constant sample \<open>[4, 4, 4]\<close>,
  whose variance is zero.
\<close>

theorem shape_advances_witness:
  "\<not> pow2_overflow exact 2 \<and> \<not> is_zero exact (pow2 exact 2)
   \<and> posterior_alpha (snd (update_posterior exact (init 0 2 1 1) [4, 4, 4])) = 5 / 2"
  using shape_advances [of "init 0 2 1 1" exact "[4, 4, 4]"]
  by (simp add: exact_def init_def Let_def)

subsection \<open>C6: which operations raise\<close>

text \<open>
  Claim C6 says that no operation raises on malformed hyperparameters and that a prior
  scale of 0 gives inf or nan instead of an exception. With the prior scale the Python
  float \<^verbatim>\<open>0.0\<close>, \<^verbatim>\<open>1 / (self.prior_sigma ** 2)\<close> raises \<^verbatim>\<open>ZeroDivisionError\<close>.
\<close>

theorem no_raise_counterexample:
  "fst (update_posterior exact (init 0 0 1 1) [1, 2]) = Raises ZeroDivisionError"
  by (simp add: update_posterior_def py_pow2_def py_div_def exact_def init_def Let_def)

text \<open>
  Claim C6, amended. \<^verbatim>\<open>update_posterior\<close> returns for a nan prior scale; for any other
  it raises \<^verbatim>\<open>OverflowError\<close> when the square of the prior scale overflows,
  \<^verbatim>\<open>ZeroDivisionError\<close> when that square is \<^verbatim>\<open>0.0\<close>, and returns otherwise, whatever
  the other hyperparameters and the data. \<^verbatim>\<open>posterior_predictive\<close> raises exactly when
  the posterior rate is a Python float and the posterior shape equals \<^verbatim>\<open>0.0\<close>, and
  then \<^verbatim>\<open>ZeroDivisionError\<close>. \<^verbatim>\<open>sample_posterior\<close> raises \<^verbatim>\<open>ZeroDivisionError\<close>
  when the posterior rate is a Python float equal to \<^verbatim>\<open>0.0\<close>; otherwise it raises
  \<^verbatim>\<open>ValueError\<close> when the posterior shape or the inverse posterior rate has its sign bit
  set without being a nan or the count is negative, otherwise the exception of numpy
  when it cannot create an array of that count, otherwise \<^verbatim>\<open>ValueError\<close> when the
  posterior scale has its sign bit set without being a nan, and in no other case.
\<close>

theorem raising_operations:
  "fst (update_posterior A e xs)
     = (if is_nan A (prior_sigma e) then Returns ()
        else if pow2_overflow A (prior_sigma e) then Raises OverflowError
        else if \<not> is_nan A (pow2 A (prior_sigma e)) \<and> is_zero A (pow2 A (prior_sigma e))
        then Raises ZeroDivisionError
        else Returns ())
   \<and> (fst (posterior_predictive A t_pdf e x_new) = Raises err
        \<longleftrightarrow> err = ZeroDivisionError \<and> \<not> posterior_beta_np e
            \<and> \<not> is_nan A (posterior_alpha e) \<and> is_zero A (posterior_alpha e))
   \<and> (fst (sample_posterior A gd nd e n g) = Raises err
        \<longleftrightarrow> (if \<not> posterior_beta_np e \<and> \<not> is_nan A (posterior_beta e)
                \<and> is_zero A (posterior_beta e)
             then err = ZeroDivisionError
             else if (\<not> is_nan A (posterior_alpha e) \<and> sign_bit A (posterior_alpha e))
                     \<or> (\<not> is_nan A (fdiv A (from_int A 1) (posterior_beta e))
                         \<and> sign_bit A (fdiv A (from_int A 1) (posterior_beta e)))
                     \<or> n < 0
             then err = ValueError
             else if alloc_error A n \<noteq> None then alloc_error A n = Some err
             else err = ValueError
                  \<and> \<not> is_nan A (posterior_sigma e) \<and> sign_bit A (posterior_sigma e)))"
proof -
  have P: "fst (posterior_predictive A t_pdf e x_new) = Raises err
        \<longleftrightarrow> err = ZeroDivisionError \<and> \<not> posterior_beta_np e
            \<and> \<not> is_nan A (posterior_alpha e) \<and> is_zero A (posterior_alpha e)"
    by (auto simp: posterior_predictive_outcome)
  have S: "fst (sample_posterior A gd nd e n g) = Raises err
        \<longleftrightarrow> (if \<not> posterior_beta_np e \<and> \<not> is_nan A (posterior_beta e)
                \<and> is_zero A (posterior_beta e)
             then err = ZeroDivisionError
             else if (\<not> is_nan A (posterior_alpha e) \<and> sign_bit A (posterior_alpha e))
                     \<or> (\<not> is_nan A (fdiv A (from_int A 1) (posterior_beta e))
                         \<and> sign_bit A (fdiv A (from_int A 1) (posterior_beta e)))
                     \<or> n < 0
             then err = ValueError
             else if alloc_error A n \<noteq> None then alloc_error A n = Some err
             else err = ValueError
                  \<and> \<not> is_nan A (posterior_sigma e) \<and> sign_bit A (posterior_sigma e))"
  proof (cases "\<not> posterior_beta_np e \<and> \<not> is_nan A (posterior_beta e)
                \<and> is_zero A (posterior_beta e)")
    case True
    then show ?thesis
      using sample_posterior_zero_division [of e A gd nd n g] by auto
  next
    case False
    then have "posterior_beta_np e \<or> is_nan A (posterior_beta e)
               \<or> \<not> is_zero A (posterior_beta e)"
      by auto
    from sample_posterior_after_division [OF this, of gd nd n g err] False
    show ?thesis by auto
  qed
  show ?thesis
    using P S by (simp add: update_posterior_outcome)
qed

text \<open>
  The amended claim at the prior \<open>(0, -2, 0, 0)\<close>: the update returns, the two other
  operations raise on the fresh estimator.
\<close>

theorem raising_operations_witness:
  "fst (update_posterior exact (init 0 (- 2) 0 0) [1, 2]) = Returns ()
   \<and> fst (posterior_predictive exact no_pdf (init 0 (- 2) 0 0) [0]) = Raises ZeroDivisionError
   \<and> fst (sample_posterior exact fixed_gamma_draw fixed_normal_draw (init 0 (- 2) 0 0) 3 0)
       = Raises ZeroDivisionError"
  using raising_operations [where A = exact and e = "init 0 (- 2) 0 0" and xs = "[1, 2]"
      and t_pdf = no_pdf and x_new = "[0]" and err = ZeroDivisionError
      and gd = fixed_gamma_draw and nd = fixed_normal_draw and n = 3 and g = 0]
  by (simp add: exact_def init_def)

subsection \<open>C7: the lengths of the posterior samples\<close>

text \<open>
  Claim C7 says that \<^verbatim>\<open>sample_posterior\<close> never raises and gives empty sequences for
  a count that is zero or negative. On a fresh estimator with prior rate \<^verbatim>\<open>0.0\<close> it
  raises \<^verbatim>\<open>ZeroDivisionError\<close>, and with the count \<open>-1\<close> it raises \<^verbatim>\<open>ValueError\<close>.
\<close>

theorem sample_posterior_counterexample:
  "fst (sample_posterior exact fixed_gamma_draw fixed_normal_draw (init 0 1 1 0) 10 0)
     = Raises ZeroDivisionError
   \<and> fst (sample_posterior exact fixed_gamma_draw fixed_normal_draw (init 0 1 1 1) (- 1) 0)
     = Raises ValueError"
  by (simp add: sample_posterior_def py_div_def np_random_gamma_def exact_def init_def)

text \<open>
  Claim C7, amended. Let the count \<open>n\<close> be at least 0, let the posterior rate not be a
  Python float equal to \<^verbatim>\<open>0.0\<close>, let the posterior shape, the inverse posterior rate
  and the posterior scale each be a nan or have a clear sign bit, and let numpy be able to
  create an array of \<open>n\<close> cells. Then
  \<^verbatim>\<open>sample_posterior\<close> returns two sequences of length \<open>n\<close>, both empty when
  \<open>n = 0\<close>, and leaves the estimator as it is.
\<close>

theorem sample_posterior_lengths:
  assumes "0 \<le> n"
    and "posterior_beta_np e \<or> is_nan A (posterior_beta e) \<or> \<not> is_zero A (posterior_beta e)"
    and "is_nan A (posterior_alpha e) \<or> \<not> sign_bit A (posterior_alpha e)"
    and "is_nan A (fdiv A (from_int A 1) (posterior_beta e))
         \<or> \<not> sign_bit A (fdiv A (from_int A 1) (posterior_beta e))"
    and "is_nan A (posterior_sigma e) \<or> \<not> sign_bit A (posterior_sigma e)"
    and "alloc_error A n = None"
  shows "\<exists>mu_samples sigma_samples g'.
           sample_posterior A gd nd e n g = (Returns (mu_samples, sigma_samples), e, g')
           \<and> length mu_samples = nat n \<and> length sigma_samples = nat n
           \<and> (n = 0 \<longrightarrow> mu_samples = [] \<and> sigma_samples = [])"
proof -
  let ?scale = "fdiv A (from_int A 1) (posterior_beta e)"
  obtain ps g1 where G: "draws (gd (posterior_alpha e) ?scale) (nat n) g = (ps, g1)"
    by (cases "draws (gd (posterior_alpha e) ?scale) (nat n) g")
  obtain ms g2 where N: "draws (nd (posterior_mu e) (posterior_sigma e)) (nat n) g1 = (ms, g2)"
    by (cases "draws (nd (posterior_mu e) (posterior_sigma e)) (nat n) g1")
  have lp: "length ps = nat n" using G by (rule draws_length)
  have lm: "length ms = nat n" using N by (rule draws_length)
  have "sample_posterior A gd nd e n g
          = (Returns (ms, map (\<lambda>p. fdiv A (from_int A 1) (fsqrt A p)) ps), e, g2)"
    using assms G N
    by (auto simp: sample_posterior_def py_div_def np_random_gamma_def np_random_normal_def
        Let_def)
  then show ?thesis
    using lp lm by auto
qed

text \<open>
  The amended claim at the posterior \<open>(0, 1, 1, 1)\<close> and the count 2: two normal draws
  at the location 0, and two scales \<open>1 / sqrt 4\<close> from the gamma draws.
\<close>

theorem sample_posterior_lengths_witness:
  "sample_posterior exact fixed_gamma_draw fixed_normal_draw (init 0 1 1 1) 2 0
     = (Returns ([0, 0], [1 / 2, 1 / 2]), init 0 1 1 1, 4)
   \<and> (\<exists>mu_samples sigma_samples g'.
         sample_posterior exact fixed_gamma_draw fixed_normal_draw (init 0 1 1 1) 2 0
           = (Returns (mu_samples, sigma_samples), init 0 1 1 1, g')
         \<and> length mu_samples = 2 \<and> length sigma_samples = 2)"
proof -
  have run: "sample_posterior exact fixed_gamma_draw fixed_normal_draw (init 0 1 1 1) 2 0
               = (Returns ([0, 0], [1 / 2, 1 / 2]), init 0 1 1 1, 4)"
    by (simp add: sample_posterior_def py_div_def np_random_gamma_def np_random_normal_def
        exact_def init_def fixed_gamma_draw_def fixed_normal_draw_def numeral_2_eq_2
        numeral_Bit0 [of num.One, symmetric] eval_nat_numeral)
  show ?thesis
    using run sample_posterior_lengths
      [of 2 "init 0 1 1 1" exact fixed_gamma_draw fixed_normal_draw 0]
    by (simp add: exact_def init_def)
qed

subsection \<open>C8: the update is not incremental\<close>

text \<open>
  Claim C8. Whatever updates an estimator has seen since its construction, a further
  \<^verbatim>\<open>update_posterior\<close> has the outcome and leaves the state that the same call has on
  a freshly constructed estimator with the same priors; in particular the update with
  \<open>d1\<close> followed by the update with \<open>d2\<close> leaves the state of the single update with
  \<open>d2\<close>.
\<close>

theorem update_non_incremental:
  "update_posterior A (run_updates A (init mu sigma alpha beta) ds) xs
     = update_posterior A (init mu sigma alpha beta) xs
   \<and> snd (update_posterior A (snd (update_posterior A (init mu sigma alpha beta) d1)) d2)
     = snd (update_posterior A (init mu sigma alpha beta) d2)"
  by (simp add: update_after_history update_posterior_twice)

subsection \<open>C9: the prior fields are never modified\<close>

text \<open>
  Claim C9. The constructor stores the four hyperparameters; \<^verbatim>\<open>update_posterior\<close>
  leaves them as they are, whether it returns or raises; \<^verbatim>\<open>sample_posterior\<close> and
  \<^verbatim>\<open>posterior_predictive\<close> leave the whole object as it is: priors, posterior and
  data.
\<close>

theorem prior_fields_immutable:
  "prior_mu (init mu sigma alpha beta) = mu
   \<and> prior_sigma (init mu sigma alpha beta) = sigma
   \<and> prior_alpha (init mu sigma alpha beta) = alpha
   \<and> prior_beta (init mu sigma alpha beta) = beta
   \<and> prior_mu (snd (update_posterior A e xs)) = prior_mu e
   \<and> prior_sigma (snd (update_posterior A e xs)) = prior_sigma e
   \<and> prior_alpha (snd (update_posterior A e xs)) = prior_alpha e
   \<and> prior_beta (snd (update_posterior A e xs)) = prior_beta e
   \<and> fst (snd (sample_posterior A gd nd e n g)) = e
   \<and> snd (posterior_predictive A t_pdf e x_new) = e"
  by (simp add: update_posterior_priors sample_posterior_state posterior_predictive_state
      init_def)

end
